theory Spec2Isabelle
  imports Complex_Main
begin

section \<open>Text of an exception\<close>

text \<open>
  The send helper of \<^verbatim>\<open>main.py\<close> decides what to do after a failed send by looking at
  \<^verbatim>\<open>str(e)\<close>.  The text is a \<^typ>\<open>string\<close>; the model covers ASCII text, which is what
  the Telegram client library puts into its exceptions.
\<close>

text \<open>\<^verbatim>\<open>s.startswith(p)\<close>.\<close>

fun comeca_com :: "string \<Rightarrow> string \<Rightarrow> bool" where
  "comeca_com [] s = True"
| "comeca_com (p # ps) [] = False"
| "comeca_com (p # ps) (c # cs) = (if p = c then comeca_com ps cs else False)"

text \<open>\<^verbatim>\<open>p in s\<close> for two strings.\<close>

fun contem :: "string \<Rightarrow> string \<Rightarrow> bool" where
  "contem p [] = (p = [])"
| "contem p (c # cs) = (if comeca_com p (c # cs) then True else contem p cs)"

text \<open>
  \<^verbatim>\<open>s.split(sep)\<close> for a non-empty separator: the pieces between the occurrences of
  \<^verbatim>\<open>sep\<close>, found from the left and not overlapping.  The second argument is the
  piece being read, in reverse.
\<close>

fun separar :: "string \<Rightarrow> string \<Rightarrow> string \<Rightarrow> string list" where
  "separar sep atual [] = [rev atual]"
| "separar sep atual (c # cs) =
     (if comeca_com sep (c # cs)
      then rev atual # separar sep [] (drop (length sep - 1) cs)
      else separar sep (c # atual) cs)"

definition split :: "string \<Rightarrow> string \<Rightarrow> string list" where
  "split s sep = separar sep [] s"

text \<open>\<^verbatim>\<open>s.lower()\<close> on ASCII text.\<close>

definition minuscula :: "char \<Rightarrow> char" where
  "minuscula c =
     (if 65 \<le> (of_char c :: nat) \<and> (of_char c :: nat) \<le> 90
      then char_of ((of_char c :: nat) + 32) else c)"

definition lower :: "string \<Rightarrow> string" where
  "lower s = map minuscula s"

text \<open>
  \<^verbatim>\<open>int(s)\<close> for a string: blanks around, an optional sign, then decimal digits,
  where single underscores may stand between digits.  \<^verbatim>\<open>None\<close> is Python's
  \<^verbatim>\<open>ValueError\<close>.
\<close>

definition espaco :: "char \<Rightarrow> bool" where
  "espaco c =
     (let n = (of_char c :: nat) in (9 \<le> n \<and> n \<le> 13) \<or> (28 \<le> n \<and> n \<le> 32))"

definition strip :: "string \<Rightarrow> string" where
  "strip s = rev (dropWhile espaco (rev (dropWhile espaco s)))"

definition digito :: "char \<Rightarrow> nat option" where
  "digito c =
     (let n = (of_char c :: nat) in if 48 \<le> n \<and> n \<le> 57 then Some (n - 48) else None)"

fun digitos :: "nat \<Rightarrow> string \<Rightarrow> nat option" where
  "digitos acc [] = Some acc"
| "digitos acc [c] = (case digito c of None \<Rightarrow> None | Some d \<Rightarrow> Some (10 * acc + d))"
| "digitos acc (c # d # cs) =
     (if c = CHR ''_''
      then (case digito d of None \<Rightarrow> None | Some v \<Rightarrow> digitos (10 * acc + v) cs)
      else (case digito c of None \<Rightarrow> None | Some v \<Rightarrow> digitos (10 * acc + v) (d # cs)))"

definition decimal :: "string \<Rightarrow> nat option" where
  "decimal s =
     (case s of
        [] \<Rightarrow> None
      | c # cs \<Rightarrow> (case digito c of None \<Rightarrow> None | Some d \<Rightarrow> digitos d cs))"

definition py_int :: "string \<Rightarrow> int option" where
  "py_int s =
     (case strip s of
        [] \<Rightarrow> None
      | c # cs \<Rightarrow>
          if c = CHR ''-'' then map_option (\<lambda>n. - int n) (decimal cs)
          else if c = CHR ''+'' then map_option int (decimal cs)
          else map_option int (decimal (c # cs)))"

section \<open>The resilient send helper\<close>

text \<open>
  \<^verbatim>\<open>bot.send_message\<close> is the outside world: it returns the sent message or raises.
  The model takes it as a function of the number of sends made so far in this
  call of the helper and of the target, so that the same target may answer differently
  each time.
\<close>

datatype 'm resposta = Enviada 'm | Excecao string

text \<open>
  What the helper does, in order: a send to a target (with the attempt number of the
  \<^verbatim>\<open>for attempt in range(retry_count)\<close> loop and what came back), a
  \<^verbatim>\<open>time.sleep\<close>, and the final \<^verbatim>\<open>bot_monitor.register_activity()\<close>.
\<close>

datatype ('c, 'm) evento = Tentativa 'c nat "'m resposta" | Dormiu rat | Atividade

text \<open>
  The body of \<^verbatim>\<open>except Exception as e\<close> (lines 216 to 241), as the decision it takes
  from the text of the error and the current backoff: leave the target, or sleep
  and go on to the next attempt with a new backoff.

  \<^item> The text has \<^verbatim>\<open>Too Many Requests: retry after\<close>: the wait is
    \<^verbatim>\<open>int(error_msg.split("retry after ")[1])\<close> and the sleep is one second more.
    \<^verbatim>\<open>IndexError\<close> (no second piece), \<^verbatim>\<open>ValueError\<close> of \<^verbatim>\<open>int\<close>, and
    \<^verbatim>\<open>ValueError\<close> of \<^verbatim>\<open>time.sleep\<close> on a negative length all end in the inner
    handler: sleep the backoff, then double it up to 30.
  \<^item> Otherwise the lower-cased text has \<^verbatim>\<open>chat not found\<close>: \<^verbatim>\<open>break\<close>.
  \<^item> Otherwise: sleep the backoff, then 1.5 times it up to 15.
\<close>

datatype reacao = Pular | Aguardar rat rat

definition wait_time :: "string \<Rightarrow> int option" where
  "wait_time error_msg =
     (case split error_msg ''retry after '' of
        [] \<Rightarrow> None
      | [p] \<Rightarrow> None
      | p # q # ps \<Rightarrow> py_int q)"

definition ao_falhar :: "string \<Rightarrow> rat \<Rightarrow> reacao" where
  "ao_falhar error_msg backoff =
     (if contem ''Too Many Requests: retry after'' error_msg then
        (case wait_time error_msg of
           None \<Rightarrow> Aguardar backoff (min (backoff * 2) 30)
         | Some w \<Rightarrow>
             if w + 1 < 0 then Aguardar backoff (min (backoff * 2) 30)
             else Aguardar (of_int (w + 1)) backoff)
      else if contem ''chat not found'' (lower error_msg) then Pular
      else Aguardar backoff (min (backoff * (3 / 2)) 15))"

text \<open>
  The loop \<^verbatim>\<open>for attempt in range(retry_count)\<close> for one target: the first argument
  after the target is the number of attempts left, the next the attempt number, then
  the backoff and the number of sends made so far.  The result is what happened, the
  message if one was sent, and the number of sends made.
\<close>

fun tentativas ::
  "(nat \<Rightarrow> 'c \<Rightarrow> 'm resposta) \<Rightarrow> 'c \<Rightarrow> nat \<Rightarrow> nat \<Rightarrow> rat \<Rightarrow> nat
    \<Rightarrow> ('c, 'm) evento list \<times> 'm option \<times> nat" where
  "tentativas send_message chat_id 0 attempt backoff k = ([], None, k)"
| "tentativas send_message chat_id (Suc n) attempt backoff k =
     (case send_message k chat_id of
        Enviada m \<Rightarrow> ([Tentativa chat_id attempt (Enviada m)], Some m, Suc k)
      | Excecao error_msg \<Rightarrow>
          (case ao_falhar error_msg backoff of
             Pular \<Rightarrow> ([Tentativa chat_id attempt (Excecao error_msg)], None, Suc k)
           | Aguardar d backoff' \<Rightarrow>
               (case tentativas send_message chat_id n (Suc attempt) backoff' (Suc k) of
                  (evs, r, k') \<Rightarrow>
                    (Tentativa chat_id attempt (Excecao error_msg) # Dormiu d # evs, r, k'))))"

text \<open>
  The loop \<^verbatim>\<open>for chat_id in chat_ids\<close>.  It is entered with \<^verbatim>\<open>success\<close> false and
  stops at the first target that takes the message (\<^verbatim>\<open>if success: break\<close>).
\<close>

fun alvos ::
  "(nat \<Rightarrow> 'c \<Rightarrow> 'm resposta) \<Rightarrow> 'c list \<Rightarrow> nat \<Rightarrow> rat \<Rightarrow> nat
    \<Rightarrow> ('c, 'm) evento list \<times> 'm option" where
  "alvos send_message [] retry_count timeout k = ([], None)"
| "alvos send_message (chat_id # chat_ids) retry_count timeout k =
     (case tentativas send_message chat_id retry_count 0 timeout k of
        (evs, Some m, k') \<Rightarrow> (evs, Some m)
      | (evs, None, k') \<Rightarrow>
          (case alvos send_message chat_ids retry_count timeout k' of
             (evs', r) \<Rightarrow> (evs @ evs', r)))"

text \<open>
  \<^verbatim>\<open>enviar_mensagem_resiliente(chat_ids, texto, ..., retry_count=3, timeout=2)\<close>.  The
  text and the markup are passed on to \<^verbatim>\<open>bot.send_message\<close> unchanged and are part
  of \<^verbatim>\<open>send_message\<close> here.  \<^verbatim>\<open>timeout\<close> is a natural number, as at every call in the file
  (the default 2).  The result is \<^verbatim>\<open>(sent_msg, success)\<close> and what was done.
\<close>

record ('c, 'm) envio =
  sent_msg :: "'m option"
  success :: bool
  feito :: "('c, 'm) evento list"

definition enviar_mensagem_resiliente ::
  "(nat \<Rightarrow> 'c \<Rightarrow> 'm resposta) \<Rightarrow> 'c list \<Rightarrow> nat \<Rightarrow> nat \<Rightarrow> ('c, 'm) envio" where
  "enviar_mensagem_resiliente send_message chat_ids retry_count timeout =
     (case alvos send_message chat_ids retry_count (of_nat timeout) 0 of
        (evs, r) \<Rightarrow>
          \<lparr>sent_msg = r, success = (r \<noteq> None), feito = evs @ [Atividade]\<rparr>)"


definition canal_ausente :: "nat \<Rightarrow> nat \<Rightarrow> nat resposta" where
  "canal_ausente k c =
     (if c = 1 then Excecao ''Bad Request: chat not found'' else Enviada k)"


section \<open>The result feed\<close>

text \<open>
  The three outcomes of a round, written in the source as the emoji strings for red,
  blue and orange (the tie).
\<close>

datatype cor = Vermelho | Azul | Laranja

text \<open>The exceptions of the code that the model follows.\<close>

datatype erro =
  ValueError | AttributeError | TypeError | ZeroDivisionError | RequestException
  | NameError | UnboundLocalError

text \<open>
  The value of \<^verbatim>\<open>response.json()\<close>.  An object is the list of its members, and
  \<^verbatim>\<open>d.get(k, v)\<close> looks \<^verbatim>\<open>k\<close> up in it.
\<close>

datatype json =
  JNulo | JBool bool | JNumero rat | JTexto string | JLista "json list"
  | JObjeto "(string \<times> json) list"

text \<open>
  What \<^verbatim>\<open>session.get\<close> does: it raises, or it returns a response with a status code
  and a body.  For the results API the body is what \<^verbatim>\<open>response.json()\<close> gives
  (\<open>None\<close> when it raises); for the game page it is what the HTML parser finds:
  \<open>None\<close> when there is no \<^verbatim>\<open>.game-results-container\<close>, otherwise the
  \<^verbatim>\<open>class\<close> lists of its \<^verbatim>\<open>.result-item\<close> elements.
\<close>

datatype 'a http = Falha | Resposta nat 'a

text \<open>
  The outside world at one call of \<^verbatim>\<open>atualizar_resultados_elephant\<close>: the clock read
  at line 343, the two responses, the clock read for the seed at line 426 and the
  wall-clock text of line 456.
\<close>

record ambiente =
  tempo :: rat
  resposta_api :: "json option http"
  resposta_pagina :: "string list list option http"
  tempo_semente :: rat
  relogio :: string

datatype origem = API_Elephant_Bet | Web_Scraping | Simulacao_Fallback

text \<open>
  The dictionary \<^verbatim>\<open>resultados_anteriores\<close>.  The keys \<^verbatim>\<open>resultado_atual\<close>,
  \<^verbatim>\<open>timestamp_rodada\<close> and \<^verbatim>\<open>fonte\<close> are absent from the dictionary the module
  starts with.  \<^verbatim>\<open>frequencia\<close> keeps the order in which its keys are inserted.
\<close>

record resultados =
  ultimos_10 :: "cor list"
  frequencia :: "(cor \<times> rat) list"
  tendencia :: cor
  ultima_atualizacao :: rat
  resultado_atual :: "cor option"
  timestamp_rodada :: "string option"
  fonte :: "origem option"

text \<open>The dictionary at module load, at time \<open>t0\<close> (lines 293 to 298).\<close>

definition resultados_iniciais :: "rat \<Rightarrow> resultados" where
  "resultados_iniciais t0 =
     \<lparr>ultimos_10 =
        [Vermelho, Azul, Azul, Laranja, Vermelho, Laranja, Azul, Vermelho, Azul, Laranja],
      frequencia = [(Vermelho, 33 / 100), (Azul, 40 / 100), (Laranja, 27 / 100)],
      tendencia = Azul,
      ultima_atualizacao = t0,
      resultado_atual = None,
      timestamp_rodada = None,
      fonte = None\<rparr>"

subsection \<open>First tier: the results API\<close>

text \<open>
  \<^verbatim>\<open>COLOR_MAPPING.get(result_color, orange)\<close>: a list or an object cannot be hashed
  (\<^verbatim>\<open>TypeError\<close>); any other value that is not one of the three keys gives the
  default.
\<close>

fun color_mapping :: "json \<Rightarrow> erro + cor" where
  "color_mapping (JTexto s) =
     (if s = ''red'' then Inr Vermelho
      else if s = ''blue'' then Inr Azul
      else Inr Laranja)"
| "color_mapping (JLista xs) = Inl TypeError"
| "color_mapping (JObjeto kvs) = Inl TypeError"
| "color_mapping v = Inr Laranja"

text \<open>
  One pass of the loop body: \<^verbatim>\<open>round_data.get('result', 'orange')\<close>, which only an
  object has, then the mapping.
\<close>

fun rodada :: "json \<Rightarrow> erro + cor" where
  "rodada (JObjeto kvs) =
     (case map_of kvs ''result'' of
        None \<Rightarrow> color_mapping (JTexto ''orange'')
      | Some result_color \<Rightarrow> color_mapping result_color)"
| "rodada v = Inl AttributeError"

text \<open>The loop over the rounds: the first exception ends it.\<close>

fun rodadas :: "json list \<Rightarrow> erro + cor list" where
  "rodadas [] = Inr []"
| "rodadas (round_data # rest) =
     (case rodada round_data of
        Inl e \<Rightarrow> Inl e
      | Inr emoji_result \<Rightarrow>
          (case rodadas rest of
             Inl e \<Rightarrow> Inl e
           | Inr recent_results \<Rightarrow> Inr (emoji_result # recent_results)))"

text \<open>
  \<^verbatim>\<open>data.get('rounds', [])[:10]\<close>: only an object has \<^verbatim>\<open>get\<close>; a list is cut to
  its first ten elements; a string is cut too and the loop then runs over its
  characters; nothing else can be sliced.
\<close>

fun dez_rodadas :: "json \<Rightarrow> erro + json list" where
  "dez_rodadas (JObjeto kvs) =
     (case map_of kvs ''rounds'' of
        None \<Rightarrow> Inr []
      | Some (JLista xs) \<Rightarrow> Inr (take 10 xs)
      | Some (JTexto t) \<Rightarrow> Inr (map (\<lambda>c. JTexto [c]) (take 10 t))
      | Some v \<Rightarrow> Inl TypeError)"
| "dez_rodadas v = Inl AttributeError"

text \<open>
  Lines 353 to 374.  The result is \<^verbatim>\<open>(novo_resultado, recent_results)\<close>, or the
  exception that sends the code to the second tier.
\<close>

definition via_api :: "json option http \<Rightarrow> erro + cor \<times> cor list" where
  "via_api response =
     (case response of
        Falha \<Rightarrow> Inl RequestException
      | Resposta status_code corpo \<Rightarrow>
          if status_code = 200 then
            (case corpo of
               None \<Rightarrow> Inl ValueError
             | Some data \<Rightarrow>
                 (case dez_rodadas data of
                    Inl e \<Rightarrow> Inl e
                  | Inr rounds \<Rightarrow>
                      (case rodadas rounds of
                         Inl e \<Rightarrow> Inl e
                       | Inr [] \<Rightarrow> Inl ValueError
                       | Inr (r # rs) \<Rightarrow> Inr (r, r # rs))))
          else Inl ValueError)"

subsection \<open>Second tier: the game page\<close>

text \<open>Lines 397 to 402, from the \<^verbatim>\<open>class\<close> list of one item.\<close>

definition item_cor :: "string list \<Rightarrow> cor" where
  "item_cor classes =
     (if ''result-red'' \<in> set classes then Vermelho
      else if ''result-blue'' \<in> set classes then Azul
      else Laranja)"

definition via_scraping :: "string list list option http \<Rightarrow> erro + cor \<times> cor list" where
  "via_scraping response =
     (case response of
        Falha \<Rightarrow> Inl RequestException
      | Resposta status_code corpo \<Rightarrow>
          if status_code = 200 then
            (case corpo of
               None \<Rightarrow> Inl ValueError
             | Some result_items \<Rightarrow>
                 (case map item_cor (take 10 result_items) of
                    [] \<Rightarrow> Inl ValueError
                  | r # rs \<Rightarrow> Inr (r, r # rs)))
          else Inl ValueError)"

subsection \<open>Third tier: the simulation\<close>

text \<open>
  \<^verbatim>\<open>int(x)\<close> for a float cuts towards zero.
\<close>

definition truncar :: "rat \<Rightarrow> int" where
  "truncar x = (if 0 \<le> x then \<lfloor>x\<rfloor> else \<lceil>x\<rceil>)"

text \<open>
  \<^verbatim>\<open>random.choices(cores, weights=[0.35, 0.35, 0.30], k=1)[0]\<close> as a function of the
  one number \<open>u\<close> in \<open>[0, 1)\<close> that it draws: the library looks \<open>u\<close> up among the
  accumulated weights 0.35 and 0.70 of \<^verbatim>\<open>cores = [red, blue, orange]\<close>.
\<close>

definition choices :: "rat \<Rightarrow> cor" where
  "choices u = (if u < 35 / 100 then Vermelho else if u < 70 / 100 then Azul else Laranja)"

text \<open>
  The generator is a parameter: \<open>random a i\<close> is draw number \<open>i\<close> after
  \<^verbatim>\<open>random.seed(a)\<close>, which for an integer uses its absolute value.  Lines 426 to
  435: seed with the minute, draw the outcome, then draw the ten last results.
\<close>

definition semente :: "rat \<Rightarrow> nat" where
  "semente t = nat \<bar>truncar t div 60\<bar>"

definition simulacao :: "(nat \<Rightarrow> nat \<Rightarrow> rat) \<Rightarrow> rat \<Rightarrow> cor \<times> cor list" where
  "simulacao random t =
     (choices (random (semente t) 0),
      map (\<lambda>i. choices (random (semente t) (Suc i))) [0..<10])"

subsection \<open>The refresh\<close>

text \<open>
  \<^verbatim>\<open>max(contador.keys(), key=...)\<close> over the keys in their order red, blue, orange:
  a later key wins only with a strictly greater count.
\<close>

definition max_chave :: "(cor \<Rightarrow> nat) \<Rightarrow> cor" where
  "max_chave contador =
     fold (\<lambda>k m. if contador m < contador k then k else m) [Azul, Laranja] Vermelho"

text \<open>
  Lines 439 to 467: cut to ten, count, divide, find the trend, build the new
  dictionary.  The division is exact here; Python rounds each quotient to a float.
\<close>

definition registrar ::
  "ambiente \<Rightarrow> origem \<Rightarrow> cor \<times> cor list \<Rightarrow> erro + resultados" where
  "registrar amb f nr =
     (case nr of
        (novo_resultado, recent_results) \<Rightarrow>
          let ultimos = (if length recent_results > 10 then take 10 recent_results
                         else recent_results);
              contador = count_list ultimos;
              total = length ultimos
          in if total = 0 then Inl ZeroDivisionError
             else Inr
               \<lparr>ultimos_10 = ultimos,
                frequencia =
                  map (\<lambda>cor. (cor, of_nat (contador cor) / of_nat total))
                    [Vermelho, Azul, Laranja],
                tendencia = max_chave contador,
                ultima_atualizacao = tempo amb,
                resultado_atual = Some novo_resultado,
                timestamp_rodada = Some (relogio amb),
                fonte = Some f\<rparr>)"

text \<open>
  \<^verbatim>\<open>'data' in locals()\<close> holds as soon as \<^verbatim>\<open>response.json()\<close> has returned, and
  \<^verbatim>\<open>'soup' in locals()\<close> as soon as the page came with status 200, whether or not
  the tier then gave a result.
\<close>

definition origem_de :: "ambiente \<Rightarrow> origem" where
  "origem_de amb =
     (case resposta_api amb of
        Resposta status_code (Some data) \<Rightarrow>
          if status_code = 200 then API_Elephant_Bet
          else (case resposta_pagina amb of
                  Resposta st corpo \<Rightarrow> if st = 200 then Web_Scraping else Simulacao_Fallback
                | Falha \<Rightarrow> Simulacao_Fallback)
      | _ \<Rightarrow>
          (case resposta_pagina amb of
             Resposta st corpo \<Rightarrow> if st = 200 then Web_Scraping else Simulacao_Fallback
           | Falha \<Rightarrow> Simulacao_Fallback))"

text \<open>The three tiers, each entered when the one before raised (lines 351 to 437).\<close>

definition obter :: "(nat \<Rightarrow> nat \<Rightarrow> rat) \<Rightarrow> ambiente \<Rightarrow> cor \<times> cor list" where
  "obter random amb =
     (case via_api (resposta_api amb) of
        Inr nr \<Rightarrow> nr
      | Inl api_error \<Rightarrow>
          (case via_scraping (resposta_pagina amb) of
             Inr nr \<Rightarrow> nr
           | Inl scraping_error \<Rightarrow> simulacao random (tempo_semente amb)))"

text \<open>
  \<^verbatim>\<open>atualizar_resultados_elephant()\<close>.  The argument is the global dictionary before
  the call; the result, when the call returns, is the dictionary the call returns,
  which is also the global dictionary after the call.  Within ten seconds of the last
  refresh the cached dictionary is returned; an exception in the body of the outer
  \<^verbatim>\<open>try\<close> leaves the dictionary as it was.
\<close>

definition atualizar_resultados_elephant ::
  "(nat \<Rightarrow> nat \<Rightarrow> rat) \<Rightarrow> ambiente \<Rightarrow> resultados \<Rightarrow> erro + resultados" where
  "atualizar_resultados_elephant random amb resultados_anteriores =
     (if tempo amb - ultima_atualizacao resultados_anteriores < 10
      then Inr resultados_anteriores
      else
        (case registrar amb (origem_de amb) (obter random amb) of
           Inr novos \<Rightarrow> Inr novos
         | Inl e \<Rightarrow> Inr resultados_anteriores))"

text \<open>
  A concrete world in which both network tiers fail (no connection to the API, the
  page answers 503), and a concrete generator.
\<close>

definition sem_rede :: "rat \<Rightarrow> rat \<Rightarrow> ambiente" where
  "sem_rede t ts =
     \<lparr>tempo = t, resposta_api = Falha, resposta_pagina = Resposta 503 None,
      tempo_semente = ts, relogio = ''12:00:00''\<rparr>"

definition gerador_exemplo :: "nat \<Rightarrow> nat \<Rightarrow> rat" where
  "gerador_exemplo a i = of_nat ((a * 37 + i * 11) mod 100) / 100"

section \<open>The prediction picker\<close>

text \<open>
  The six labels of \<^verbatim>\<open>estrategias\<close>, in the order of the list: the pairs
  \<^verbatim>\<open>Laranja e Azul\<close> and \<^verbatim>\<open>Laranja e Vermelho\<close>, the single colours
  \<^verbatim>\<open>Laranja\<close>, \<^verbatim>\<open>Azul\<close>, \<^verbatim>\<open>Vermelho\<close>, and the pair \<^verbatim>\<open>Azul e Vermelho\<close>.
\<close>

datatype aposta =
  Laranja_e_Azul | Laranja_e_Vermelho | So_Laranja | So_Azul | So_Vermelho | Azul_e_Vermelho

definition estrategias :: "aposta list" where
  "estrategias =
     [Laranja_e_Azul, Laranja_e_Vermelho, So_Laranja, So_Azul, So_Vermelho, Azul_e_Vermelho]"

text \<open>
  The outside world at one call of the picker: the world of the refresh it makes, the
  hour and the minute of \<^verbatim>\<open>time.strftime\<close>, the value \<^verbatim>\<open>ultimo_palpite\<close> imported
  from the module \<^verbatim>\<open>prediction_generator\<close>, which is not part of the source (\<open>None\<close>
  when the import fails, when the value is \<^verbatim>\<open>None\<close>, and for any value that is not
  one of the six labels, since the picker only compares it with labels), and the index
  that \<^verbatim>\<open>random.choice\<close> draws.
\<close>

record instante =
  rede :: ambiente
  hora_atual :: nat
  minuto_atual :: nat
  ultimo_pred :: "aposta option"
  sorteio :: nat

definition max_gales :: int where
  "max_gales = 1"

text \<open>\<^verbatim>\<open>random.choice(xs)\<close> on a non-empty list, with the index drawn.\<close>

definition choice :: "nat \<Rightarrow> 'a list \<Rightarrow> 'a" where
  "choice k xs = xs ! (k mod length xs)"

text \<open>\<^verbatim>\<open>xs[-k]\<close>, used where the code has checked that the list has \<open>k\<close> elements.\<close>

definition do_fim :: "'a list \<Rightarrow> nat \<Rightarrow> 'a" where
  "do_fim xs k = xs ! (length xs - k)"

text \<open>Lines 559 to 580: after three equal outcomes.\<close>

definition por_sequencia :: "instante \<Rightarrow> bool \<Rightarrow> cor \<Rightarrow> aposta" where
  "por_sequencia i defensivo cor_repetida =
     (if defensivo then
        (if cor_repetida = Azul then So_Vermelho
         else if cor_repetida = Vermelho then So_Azul
         else if 12 \<le> hora_atual i then So_Vermelho else So_Azul)
      else
        (if cor_repetida = Azul then Laranja_e_Vermelho
         else if cor_repetida = Vermelho then Laranja_e_Azul
         else if minuto_atual i mod 2 = 0 then Laranja_e_Vermelho else Laranja_e_Azul))"

text \<open>
  Lines 584 to 589: the colours that do not occur among the last five outcomes, in
  the order of the keys of \<^verbatim>\<open>contador\<close>.
\<close>

definition ausentes :: "cor list \<Rightarrow> cor list" where
  "ausentes ultimos =
     (let contador = count_list (drop (length ultimos - 5) ultimos)
      in filter (\<lambda>cor. contador cor = 0) [Vermelho, Azul, Laranja])"

text \<open>Lines 594 to 610: a colour is absent.\<close>

definition por_ausencia :: "bool \<Rightarrow> cor \<Rightarrow> aposta" where
  "por_ausencia defensivo cor_ausente =
     (if defensivo then
        (if cor_ausente = Laranja then So_Laranja
         else if cor_ausente = Azul then So_Azul
         else So_Vermelho)
      else
        (if cor_ausente = Laranja then So_Laranja
         else if cor_ausente = Azul then Laranja_e_Azul
         else Laranja_e_Vermelho))"

text \<open>
  Lines 618 to 688: the four periods of the day.  Every branch returns, so the lines
  690 to 723 below them are never reached and are not part of the model.
\<close>

definition por_horario ::
  "instante \<Rightarrow> aposta list \<Rightarrow> cor list \<Rightarrow> cor \<Rightarrow> bool \<Rightarrow> aposta" where
  "por_horario i estrategias_filtradas ultimos tend defensivo =
     (if 6 \<le> hora_atual i \<and> hora_atual i < 12 then
        (if defensivo then So_Azul else Laranja_e_Azul)
      else if 12 \<le> hora_atual i \<and> hora_atual i < 18 then
        (if 3 \<le> length ultimos then
           (if do_fim ultimos 1 \<noteq> do_fim ultimos 2 then
              (if do_fim ultimos 1 = Azul then Laranja_e_Vermelho
               else if do_fim ultimos 1 = Vermelho then Laranja_e_Azul
               else if minuto_atual i mod 2 = 0 then Laranja_e_Vermelho else Laranja_e_Azul)
            else
              (if tend = Azul then Laranja_e_Azul
               else if tend = Vermelho then Laranja_e_Vermelho
               else So_Laranja))
         else Laranja_e_Azul)
      else if 18 \<le> hora_atual i \<and> hora_atual i < 24 then
        (if defensivo then So_Vermelho
         else if ultimo_pred i = Some Laranja_e_Vermelho then Laranja_e_Azul
         else Laranja_e_Vermelho)
      else
        (if defensivo then So_Laranja
         else
           (let palpite =
                  (if minuto_atual i < 20 then Laranja_e_Azul
                   else if minuto_atual i < 40 then Laranja_e_Vermelho
                   else So_Laranja)
            in if Some palpite = ultimo_pred i then
                 (let remaining = filter (\<lambda>p. p \<noteq> palpite) estrategias_filtradas
                  in if remaining \<noteq> [] then choice (sorteio i) remaining else palpite)
               else palpite)))"

text \<open>
  Lines 545 to 688, from the window and the trend of the refreshed dictionary and the
  defensive flag as lines 540 to 543 leave it.
\<close>

definition decidir :: "instante \<Rightarrow> cor list \<Rightarrow> cor \<Rightarrow> bool \<Rightarrow> aposta" where
  "decidir i ultimos tend defensivo =
     (let estrategias_filtradas =
            (case ultimo_pred i of
               None \<Rightarrow> estrategias
             | Some ultimo_palpite \<Rightarrow>
                 if ultimo_palpite \<in> set estrategias \<and> 1 < length estrategias
                 then remove1 ultimo_palpite estrategias else estrategias)
      in if 3 \<le> length ultimos \<and> do_fim ultimos 1 = do_fim ultimos 2
              \<and> do_fim ultimos 2 = do_fim ultimos 3
         then por_sequencia i defensivo (do_fim ultimos 1)
         else if 5 \<le> length ultimos \<and> ausentes ultimos \<noteq> []
         then por_ausencia defensivo (hd (ausentes ultimos))
         else por_horario i estrategias_filtradas ultimos tend defensivo)"

text \<open>
  \<^verbatim>\<open>estrategia_alta_assertividade()\<close>.  The arguments after the world are the globals
  \<^verbatim>\<open>contagem_gales\<close>, \<^verbatim>\<open>modo_defensivo\<close> and \<^verbatim>\<open>resultados_anteriores\<close> before the
  call.  The result is the tuple the function returns, whose second and third
  components are the two globals after the call, and the dictionary after the call.
  An exception inside the \<^verbatim>\<open>try\<close> ends in the handler of line 725, which, the
  module \<^verbatim>\<open>prediction_generator\<close> being absent, draws one of the two pairs with orange.
\<close>

definition estrategia_alta_assertividade ::
  "(nat \<Rightarrow> nat \<Rightarrow> rat) \<Rightarrow> instante \<Rightarrow> int \<Rightarrow> bool \<Rightarrow> resultados
     \<Rightarrow> (aposta \<times> int \<times> bool) \<times> resultados" where
  "estrategia_alta_assertividade random i gales defensivo anteriores =
     (case atualizar_resultados_elephant random (rede i) anteriores of
        Inl e \<Rightarrow>
          ((choice (sorteio i) [Laranja_e_Azul, Laranja_e_Vermelho], gales, defensivo),
           anteriores)
      | Inr res \<Rightarrow>
          (let gales' = (if max_gales \<le> gales then 0 else gales);
               defensivo' = (if max_gales \<le> gales then True else defensivo)
           in ((decidir i (ultimos_10 res) (tendencia res) defensivo', gales', defensivo'),
               res)))"

text \<open>\<^verbatim>\<open>gerar_palpite()\<close> (line 907) is the same call.\<close>

definition gerar_palpite ::
  "(nat \<Rightarrow> nat \<Rightarrow> rat) \<Rightarrow> instante \<Rightarrow> int \<Rightarrow> bool \<Rightarrow> resultados
     \<Rightarrow> (aposta \<times> int \<times> bool) \<times> resultados" where
  "gerar_palpite = estrategia_alta_assertividade"

text \<open>
  Two concrete moments for the picker, both within ten seconds of module load (so the
  refresh returns the dictionary the module starts with) and both with
  \<^verbatim>\<open>Laranja e Azul\<close> as the last pick: 08:30 and 03:10.
\<close>

definition manha :: instante where
  "manha =
     \<lparr>rede = sem_rede 5 5, hora_atual = 8, minuto_atual = 30,
      ultimo_pred = Some Laranja_e_Azul, sorteio = 0\<rparr>"


section \<open>The posting loop\<close>

text \<open>
  \<^verbatim>\<open>resultado_mapa[resultado][palpite]\<close> (lines 277 to 289): a pair wins when the
  outcome is one of its two colours.
\<close>

definition resultado_mapa :: "cor \<Rightarrow> aposta \<Rightarrow> bool" where
  "resultado_mapa resultado p =
     (case resultado of
        Azul \<Rightarrow> p = So_Azul \<or> p = Laranja_e_Azul \<or> p = Azul_e_Vermelho
      | Vermelho \<Rightarrow> p = So_Vermelho \<or> p = Laranja_e_Vermelho \<or> p = Azul_e_Vermelho
      | Laranja \<Rightarrow> p = So_Laranja \<or> p = Laranja_e_Azul \<or> p = Laranja_e_Vermelho)"

datatype padrao = COMBINACAO | ALTERNADO | REPETIDO

text \<open>
  The five locals \<^verbatim>\<open>old_acertos\<close> ... \<^verbatim>\<open>old_max_reds\<close> of \<^verbatim>\<open>enviar_palpite\<close>, which
  lines 1000 to 1004 assign together.
\<close>

record antigos =
  old_acertos :: int
  old_erros :: int
  old_total :: int
  old_max_greens :: int
  old_max_reds :: int

text \<open>
  The state of the loop: the module globals it reads and writes, and its locals that
  live from one pass to the next.  \<^verbatim>\<open>consecutive_errors\<close> is a global that only line
  1047 declares: it has no value (\<open>None\<close>) until a pass assigns one.  The locals
  \<^verbatim>\<open>old_...\<close> have no value until lines 1000 to 1004 run.
\<close>

record estado =
  acertos :: int
  erros :: int
  total :: int
  greens_seguidos :: int
  reds_seguidos :: int
  max_greens_seguidos :: int
  max_reds_seguidos :: int
  consecutive_errors :: "int option"
  contagem_gales :: int
  modo_defensivo :: bool
  PADRAO_ATUAL :: padrao
  resultados_anteriores :: resultados
  ultimo_placar :: rat
  locais_antigos :: "antigos option"

text \<open>
  The state when \<^verbatim>\<open>enviar_palpite\<close> starts, with the module loaded at \<open>t0\<close> and the
  loop entered at \<open>t1\<close> (lines 255 to 261, 293, 479 to 485, 924).
\<close>

definition estado_inicial :: "rat \<Rightarrow> rat \<Rightarrow> estado" where
  "estado_inicial t0 t1 =
     \<lparr>acertos = 0, erros = 0, total = 0, greens_seguidos = 0, reds_seguidos = 0,
      max_greens_seguidos = 0, max_reds_seguidos = 0, consecutive_errors = None,
      contagem_gales = 0, modo_defensivo = False, PADRAO_ATUAL = COMBINACAO,
      resultados_anteriores = resultados_iniciais t0, ultimo_placar = t1,
      locais_antigos = None\<rparr>"

text \<open>
  The outside world during one pass: the clock of line 929 in seconds, the world of
  the pick (line 1019), of the refresh (line 1034), the number \<^verbatim>\<open>random.random()\<close>
  gives at line 1063, and the world of the bonus pick (line 1077).
\<close>

record volta =
  agora :: rat
  instante_palpite :: instante
  rede_resultado :: ambiente
  acaso :: rat
  instante_bonus :: instante

text \<open>
  What the message of lines 1162 to 1172 shows: whether the status line is the one
  of a hit, the next pick, the bonus pick of a hit, the defensive-mode line, and the
  last line with the hits, the misses and the rate.  The wording drawn at random for
  the status line is left out.
\<close>

record mensagem =
  verde :: bool
  proxima :: aposta
  bonus :: "aposta option"
  modo_indicador :: bool
  acertos_exibidos :: int
  erros_exibidos :: int
  taxa :: rat

text \<open>
  A pass ends in the handler of line 1328 with an exception, or it reaches the
  message and goes on to send it.
\<close>

datatype desfecho = Interrompida erro | Publicada mensagem

text \<open>
  Lines 928 to 970: the scoreboard every 600 seconds.  It reads the counters and
  changes only the time of the last scoreboard.
\<close>

definition placar_geral :: "rat \<Rightarrow> estado \<Rightarrow> estado" where
  "placar_geral t st = (if 600 \<le> t - ultimo_placar st then st\<lparr>ultimo_placar := t\<rparr> else st)"

text \<open>
  Lines 972 to 1016.  The text of \<^verbatim>\<open>mensagem_reinicio\<close> is built first, outside the
  inner \<^verbatim>\<open>try\<close>, from the locals \<^verbatim>\<open>old_...\<close>: with no value they raise
  \<^verbatim>\<open>UnboundLocalError\<close>, and \<^verbatim>\<open>old_acertos / old_total\<close> divides.
\<close>

definition reinicio_do_placar :: "estado \<Rightarrow> erro + estado" where
  "reinicio_do_placar st =
     (if 150 \<le> acertos st \<and> 50 \<le> erros st \<and> 0 < total st then
        (case locais_antigos st of
           None \<Rightarrow> Inl UnboundLocalError
         | Some old \<Rightarrow>
             if old_total old = 0 then Inl ZeroDivisionError
             else Inr (st\<lparr>locais_antigos :=
                           Some \<lparr>old_acertos = acertos st, old_erros = erros st,
                                 old_total = total st,
                                 old_max_greens = max_greens_seguidos st,
                                 old_max_reds = max_reds_seguidos st\<rparr>,
                         acertos := 0, erros := 0, total := 0,
                         greens_seguidos := 0, reds_seguidos := 0,
                         max_greens_seguidos := 0, max_reds_seguidos := 0\<rparr>))
      else Inr st)"

text \<open>
  Lines 1035 to 1063: score the pick against the outcome of the refreshed dictionary,
  or at random when the dictionary has none.  The result is \<^verbatim>\<open>acertou\<close> and the
  state.
\<close>

definition conferir :: "aposta \<Rightarrow> cor option \<Rightarrow> rat \<Rightarrow> estado \<Rightarrow> erro + bool \<times> estado" where
  "conferir p resultado_real u st =
     (case resultado_real of
        None \<Rightarrow> Inr (1 / 4 < u, st)
      | Some r \<Rightarrow>
          if resultado_mapa r p then Inr (True, st\<lparr>consecutive_errors := Some 0\<rparr>)
          else
            (case consecutive_errors st of
               None \<Rightarrow> Inl NameError
             | Some n \<Rightarrow>
                 if 5 \<le> n + 1
                 then Inr (False, st\<lparr>acertos := 0, erros := 5, total := 5,
                                       consecutive_errors := Some 0\<rparr>)
                 else Inr (False, st\<lparr>consecutive_errors := Some (n + 1)\<rparr>)))"

text \<open>Lines 1066 to 1081: a hit, with the bonus pick.\<close>

definition apos_acerto ::
  "(nat \<Rightarrow> nat \<Rightarrow> rat) \<Rightarrow> instante \<Rightarrow> estado \<Rightarrow> aposta \<times> estado" where
  "apos_acerto random ib st =
     (let st1 = st\<lparr>acertos := acertos st + 1, greens_seguidos := greens_seguidos st + 1,
                    reds_seguidos := 0\<rparr>;
          st2 = (if max_greens_seguidos st1 < greens_seguidos st1
                 then st1\<lparr>max_greens_seguidos := greens_seguidos st1\<rparr> else st1)
      in case estrategia_alta_assertividade random ib 0 (modo_defensivo st2)
                (resultados_anteriores st2) of
           ((palpite_bonus, gales, defensivo), res) \<Rightarrow>
             (palpite_bonus,
              st2\<lparr>contagem_gales := gales, modo_defensivo := defensivo,
                   resultados_anteriores := res\<rparr>))"

text \<open>Lines 1100 to 1141: a miss.\<close>

definition apos_erro :: "estado \<Rightarrow> estado" where
  "apos_erro st =
     (let st1 = st\<lparr>erros := erros st + 1, reds_seguidos := reds_seguidos st + 1,
                    greens_seguidos := 0\<rparr>;
          st2 = (if max_reds_seguidos st1 < reds_seguidos st1
                 then st1\<lparr>max_reds_seguidos := reds_seguidos st1\<rparr> else st1);
          st3 = st2\<lparr>contagem_gales := contagem_gales st2 + 1\<rparr>
      in if max_gales \<le> contagem_gales st3
         then st3\<lparr>PADRAO_ATUAL :=
                     (case PADRAO_ATUAL st3 of
                        COMBINACAO \<Rightarrow> ALTERNADO
                      | ALTERNADO \<Rightarrow> REPETIDO
                      | REPETIDO \<Rightarrow> COMBINACAO),
                   contagem_gales := 0\<rparr>
         else st3\<lparr>contagem_gales := contagem_gales st3 + 1\<rparr>)"

text \<open>
  Lines 1153 to 1157, and the same lines 1452 to 1457 of \<^verbatim>\<open>status_cmd\<close>:
  \<^verbatim>\<open>50.0 + min(greens_seguidos * 2, 49.0)\<close>.
\<close>

definition taxa_exibida :: "int \<Rightarrow> rat" where
  "taxa_exibida greens = 50 + min (of_int (greens * 2)) 49"

definition mensagem_do_palpite :: "bool \<Rightarrow> aposta \<Rightarrow> aposta option \<Rightarrow> estado \<Rightarrow> mensagem" where
  "mensagem_do_palpite acertou p b st =
     \<lparr>verde = acertou, proxima = p, bonus = b, modo_indicador = modo_defensivo st,
      acertos_exibidos = acertos st, erros_exibidos = erros st,
      taxa = taxa_exibida (greens_seguidos st)\<rparr>"

text \<open>
  The rate \<^verbatim>\<open>status_cmd\<close> shows, when it shows one (\<^verbatim>\<open>total > 0\<close>).
\<close>

definition status_cmd :: "estado \<Rightarrow> rat option" where
  "status_cmd st = (if 0 < total st then Some (taxa_exibida (greens_seguidos st)) else None)"

text \<open>
  One pass of \<^verbatim>\<open>while bot_monitor.running\<close> in \<^verbatim>\<open>enviar_palpite\<close>, from line 927 to
  the message of line 1162.  The result is the state after the pass and how the pass
  ended.  What follows the message (the sends, which are all inside handlers, and the
  sleeps) changes none of the counters.
\<close>

definition enviar_palpite ::
  "(nat \<Rightarrow> nat \<Rightarrow> rat) \<Rightarrow> volta \<Rightarrow> estado \<Rightarrow> estado \<times> desfecho" where
  "enviar_palpite random v st0 =
     (let st1 = placar_geral (agora v) st0
      in case reinicio_do_placar st1 of
           Inl e \<Rightarrow> (st1, Interrompida e)
         | Inr st2 \<Rightarrow>
             (case gerar_palpite random (instante_palpite v) (contagem_gales st2)
                     (modo_defensivo st2) (resultados_anteriores st2) of
                ((p, gales, modo_def), res) \<Rightarrow>
                  (let st3 = st2\<lparr>contagem_gales := gales, modo_defensivo := modo_def,
                                  resultados_anteriores := res, total := total st2 + 1\<rparr>
                   in case atualizar_resultados_elephant random (rede_resultado v)
                             (resultados_anteriores st3) of
                        Inl e \<Rightarrow> (st3, Interrompida e)
                      | Inr dados_elephant \<Rightarrow>
                          (let st4 = st3\<lparr>resultados_anteriores := dados_elephant\<rparr>
                           in case conferir p (resultado_atual dados_elephant) (acaso v) st4 of
                                Inl e \<Rightarrow> (st4, Interrompida e)
                              | Inr (acertou, st5) \<Rightarrow>
                                  if acertou then
                                    (case apos_acerto random (instante_bonus v) st5 of
                                       (b, st6) \<Rightarrow>
                                         (st6, Publicada (mensagem_do_palpite True p (Some b) st6)))
                                  else
                                    (let st6 = apos_erro st5
                                     in (st6, Publicada (mensagem_do_palpite False p None st6)))))))"

text \<open>The states the loop can be in: the initial one, and the state after any pass.\<close>

inductive alcancavel :: "(nat \<Rightarrow> nat \<Rightarrow> rat) \<Rightarrow> estado \<Rightarrow> bool" for random where
  inicio: "alcancavel random (estado_inicial t0 t1)"
| passo: "alcancavel random st \<Longrightarrow> alcancavel random (fst (enviar_palpite random v st))"

text \<open>
  Concrete passes and states.  In \<^verbatim>\<open>volta_manha u\<close> the pass runs at 08:30 within ten
  seconds of module load, so that both refreshes return the cached dictionary, and
  \<open>u\<close> is the number \<^verbatim>\<open>random.random()\<close> would give.  In \<^verbatim>\<open>volta_simulada\<close> the
  refresh of line 1034 is due, finds no network and simulates.  \<^verbatim>\<open>quatro_erros\<close> is
  a state after seven hits and then four scored misses in a row; \<^verbatim>\<open>no_limiar\<close> is a
  state with 150 hits and 50 misses; \<^verbatim>\<open>sessenta_palpites\<close> is a state after sixty
  picks.
\<close>

definition volta_manha :: "rat \<Rightarrow> volta" where
  "volta_manha u =
     \<lparr>agora = 5, instante_palpite = manha, rede_resultado = sem_rede 6 6, acaso = u,
      instante_bonus = manha\<rparr>"

definition volta_simulada :: volta where
  "volta_simulada =
     \<lparr>agora = 5, instante_palpite = manha, rede_resultado = sem_rede 1000 1021, acaso = 0,
      instante_bonus = manha\<rparr>"

definition quatro_erros :: estado where
  "quatro_erros =
     (estado_inicial 0 0)
       \<lparr>acertos := 7, erros := 4, total := 11, reds_seguidos := 4,
        max_greens_seguidos := 7, max_reds_seguidos := 4, consecutive_errors := Some 4,
        resultados_anteriores := (resultados_iniciais 0)\<lparr>resultado_atual := Some Vermelho\<rparr>\<rparr>"

definition no_limiar :: estado where
  "no_limiar =
     (estado_inicial 0 0)
       \<lparr>acertos := 150, erros := 50, total := 200, greens_seguidos := 2,
        max_greens_seguidos := 12, max_reds_seguidos := 3, consecutive_errors := Some 0,
        resultados_anteriores := (resultados_iniciais 0)\<lparr>resultado_atual := Some Vermelho\<rparr>\<rparr>"



definition sessenta_palpites :: estado where
  "sessenta_palpites =
     (estado_inicial 0 0)
       \<lparr>acertos := 40, erros := 20, total := 60, max_greens_seguidos := 9,
        max_reds_seguidos := 3\<rparr>"


section \<open>Properties of the send helper\<close>



lemma ao_falhar_ausente:
  "\<not> contem ''Too Many Requests: retry after'' e \<Longrightarrow> contem ''chat not found'' (lower e) \<Longrightarrow>
     ao_falhar e b = Pular"
  by (simp add: ao_falhar_def)









lemma nao_contem_limite:
  "\<not> contem ''Too Many Requests: retry after'' ''Bad Request: chat not found''"
  by code_simp

lemma contem_nao_encontrado:
  "contem ''chat not found'' (lower ''Bad Request: chat not found'')"
  by code_simp

text \<open>
  Claim C5.  The first target fails at every send with an error of the
  \<^verbatim>\<open>chat not found\<close> kind (its lower-cased text has \<^verbatim>\<open>chat not found\<close>, and it is
  not a rate-limit text, which the code tests first), and the second send the helper
  makes, which is the first attempt on the second target, succeeds with message \<open>m\<close>.
  With at least one attempt allowed per target, the helper returns \<open>m\<close> and success,
  after exactly one send to the first target, no sleep, and one send to the second.
\<close>

theorem nao_encontrado_passa_ao_segundo:
  assumes "0 < retry_count"
    and "\<forall>k. \<exists>e. send_message k t1 = Excecao e
           \<and> \<not> contem ''Too Many Requests: retry after'' e
           \<and> contem ''chat not found'' (lower e)"
    and "send_message 1 t2 = Enviada m"
  shows "enviar_mensagem_resiliente send_message (t1 # t2 # resto) retry_count timeout =
           \<lparr>sent_msg = Some m, success = True,
            feito = [Tentativa t1 0 (send_message 0 t1), Tentativa t2 0 (Enviada m), Atividade]\<rparr>"
proof -
  from assms(1) obtain n where n: "retry_count = Suc n" by (cases retry_count) auto
  from assms(2) obtain e where e: "send_message 0 t1 = Excecao e"
    "\<not> contem ''Too Many Requests: retry after'' e" "contem ''chat not found'' (lower e)"
    by blast
  have 1: "tentativas send_message t1 retry_count 0 (of_nat timeout) 0 =
            ([Tentativa t1 0 (send_message 0 t1)], None, 1)"
    using e n by (simp add: ao_falhar_ausente)
  have 2: "tentativas send_message t2 retry_count 0 (of_nat timeout) (Suc 0) =
            ([Tentativa t2 0 (Enviada m)], Some m, 2)"
    using assms(3) n by simp
  show ?thesis
    by (simp add: enviar_mensagem_resiliente_def 1 2)
qed

text \<open>
  The theorem with the default three attempts and targets 1, 2 and 7, where target 1
  does not exist: one send to target 1, then the message goes out to target 2.
\<close>

theorem nao_encontrado_passa_ao_segundo_witness:
  "(0::nat) < 3
   \<and> (\<forall>k. \<exists>e. canal_ausente k 1 = Excecao e
           \<and> \<not> contem ''Too Many Requests: retry after'' e
           \<and> contem ''chat not found'' (lower e))
   \<and> canal_ausente 1 2 = Enviada 1
   \<and> enviar_mensagem_resiliente canal_ausente [1, 2, 7] 3 2 =
       \<lparr>sent_msg = Some 1, success = True,
        feito = [Tentativa 1 0 (Excecao ''Bad Request: chat not found''),
                 Tentativa 2 0 (Enviada 1), Atividade]\<rparr>"
  using nao_encontrado_passa_ao_segundo[of 3 canal_ausente 1 2 1 "[7]" 2]
    nao_contem_limite contem_nao_encontrado
  by (simp add: canal_ausente_def)

section \<open>Properties of the result feed\<close>



lemma div_minuto:
  fixes a m :: int
  assumes "60 * m \<le> a" "a < 60 * (m + 1)"
  shows "a div 60 = m"
proof -
  have r: "(a - 60 * m) div 60 = 0" using assms by (intro div_pos_pos_trivial) auto
  have "a = (a - 60 * m) + 60 * m" by simp
  then have "a div 60 = ((a - 60 * m) + 60 * m) div 60" by simp
  also have "\<dots> = m + (a - 60 * m) div 60" by (rule div_mult_self2) simp
  finally show ?thesis using r by simp
qed

lemma semente_minuto:
  assumes "0 \<le> m" "of_int (60 * m) \<le> t" "t < of_int (60 * (m + 1))"
  shows "semente t = nat m"
proof -
  from assms(1) have "(0::rat) \<le> of_int (60 * m)" by simp
  with assms(2) have t0: "0 \<le> t" by linarith
  have "60 * m \<le> \<lfloor>t\<rfloor>" using assms(2) by (simp add: le_floor_iff)
  moreover have "\<lfloor>t\<rfloor> < 60 * (m + 1)" using assms(3) by (simp add: floor_less_iff)
  ultimately have "\<lfloor>t\<rfloor> div 60 = m" by (rule div_minuto)
  with t0 assms(1) show ?thesis by (simp add: semente_def truncar_def)
qed

lemma rodadas_length: "rodadas rs = Inr cs \<Longrightarrow> length cs = length rs"
  by (induction rs arbitrary: cs) (auto split: sum.splits)

lemma dez_rodadas_length: "dez_rodadas d = Inr rs \<Longrightarrow> length rs \<le> 10"
proof (cases d)
  case (JObjeto kvs)
  assume a: "dez_rodadas d = Inr rs"
  show ?thesis
  proof (cases "map_of kvs ''rounds''")
    case None
    with a JObjeto show ?thesis by simp
  next
    case (Some v)
    with a JObjeto show ?thesis by (cases v) auto
  qed
qed simp_all

lemma via_api_forma:
  "via_api r = Inr (x, xs) \<Longrightarrow> xs \<noteq> [] \<and> length xs \<le> 10 \<and> x = hd xs"
proof -
  assume a: "via_api r = Inr (x, xs)"
  then obtain data rounds where d: "dez_rodadas data = Inr rounds" "rodadas rounds = Inr xs"
    "xs \<noteq> []" "x = hd xs"
    by (auto simp: via_api_def split: http.splits if_splits option.splits sum.splits list.splits)
  from rodadas_length[OF d(2)] dez_rodadas_length[OF d(1)] d(3,4) show ?thesis by simp
qed

lemma via_scraping_forma:
  "via_scraping r = Inr (x, xs) \<Longrightarrow> xs \<noteq> [] \<and> length xs \<le> 10 \<and> x = hd xs"
proof -
  assume a: "via_scraping r = Inr (x, xs)"
  then obtain its z zs where d: "take 10 its = z # zs" "xs = item_cor z # map item_cor zs"
    "x = item_cor z"
    by (auto simp: via_scraping_def split: http.splits if_splits option.splits list.splits)
  have "length (take 10 its) \<le> 10" by simp
  with d(1) have "length zs \<le> 9" by simp
  with d show ?thesis by simp
qed

lemma simulacao_forma:
  "simulacao random t = (x, xs) \<Longrightarrow> length xs = 10"
  by (auto simp: simulacao_def)

lemma obter_forma:
  "obter random amb = (x, xs) \<Longrightarrow> xs \<noteq> [] \<and> length xs \<le> 10"
proof (cases "via_api (resposta_api amb)")
  case (Inr nr)
  assume "obter random amb = (x, xs)"
  with Inr via_api_forma[of "resposta_api amb" x xs] show ?thesis
    by (simp add: obter_def)
next
  case api: (Inl e)
  assume o: "obter random amb = (x, xs)"
  show ?thesis
  proof (cases "via_scraping (resposta_pagina amb)")
    case (Inr nr)
    with api o via_scraping_forma[of "resposta_pagina amb" x xs] show ?thesis
      by (simp add: obter_def)
  next
    case (Inl e')
    with api o simulacao_forma[of random "tempo_semente amb" x xs] show ?thesis
      by (auto simp: obter_def)
  qed
qed

lemma registrar_ok:
  assumes "xs \<noteq> []" "length xs \<le> 10"
  shows "registrar amb f (x, xs) = Inr
           \<lparr>ultimos_10 = xs,
            frequencia = map (\<lambda>cor. (cor, of_nat (count_list xs cor) / of_nat (length xs)))
                    [Vermelho, Azul, Laranja],
            tendencia = max_chave (count_list xs),
            ultima_atualizacao = tempo amb,
            resultado_atual = Some x,
            timestamp_rodada = Some (relogio amb),
            fonte = Some f\<rparr>"
  using assms by (simp add: registrar_def Let_def)

lemma atualizar_novo:
  assumes "\<not> tempo amb - ultima_atualizacao ant < 10"
  shows "atualizar_resultados_elephant random amb ant = Inr
           \<lparr>ultimos_10 = snd (obter random amb),
            frequencia = map (\<lambda>cor. (cor, of_nat (count_list (snd (obter random amb)) cor)
                  / of_nat (length (snd (obter random amb)))))
                    [Vermelho, Azul, Laranja],
            tendencia = max_chave (count_list (snd (obter random amb))),
            ultima_atualizacao = tempo amb,
            resultado_atual = Some (fst (obter random amb)),
            timestamp_rodada = Some (relogio amb),
            fonte = Some (origem_de amb)\<rparr>"
proof -
  obtain x xs where o: "obter random amb = (x, xs)" by (cases "obter random amb") auto
  from obter_forma[OF o] registrar_ok[of xs amb "origem_de amb" x] o assms
  show ?thesis by (simp add: atualizar_resultados_elephant_def)
qed

lemma falhas_sem_rede:
  "via_api (resposta_api (sem_rede t ts)) = Inl RequestException"
  "via_scraping (resposta_pagina (sem_rede t ts)) = Inl ValueError"
  by (simp_all add: sem_rede_def via_api_def via_scraping_def)

lemma semente_exemplo: "semente 1003 = 16" "semente 1019 = 16" "semente 1021 = 17"
  by (simp_all add: semente_def truncar_def)

lemma simulacao_exemplo:
  "simulacao gerador_exemplo 1003 =
     (Laranja, [Vermelho, Vermelho, Vermelho, Azul, Azul, Azul, Azul, Laranja, Laranja, Vermelho])"
  "simulacao gerador_exemplo 1019 =
     (Laranja, [Vermelho, Vermelho, Vermelho, Azul, Azul, Azul, Azul, Laranja, Laranja, Vermelho])"
  "simulacao gerador_exemplo 1021 =
     (Vermelho, [Azul, Azul, Azul, Laranja, Laranja, Laranja, Vermelho, Vermelho, Vermelho, Azul])"
  by (simp_all add: simulacao_def semente_exemplo gerador_exemplo_def choices_def upt_rec)

lemma obter_sem_rede: "obter random (sem_rede t ts) = simulacao random ts"
  by (simp add: obter_def falhas_sem_rede) (simp add: sem_rede_def)

text \<open>
  Claim C6.  Two refreshes are due, in both the API and the page fail, and both read
  the clock for the seed within the same minute \<open>m\<close> of Unix time (which counts the
  minutes of UTC).  Then, whatever the dictionaries before and whatever else the two
  worlds hold, both store the same simulated current outcome and the same simulated
  window of ten (hence the same frequencies and trend).  The generator is any function
  of the seed; the draws between \<^verbatim>\<open>random.seed\<close> and the last \<^verbatim>\<open>random.choices\<close>
  are taken in sequence, with no other thread drawing in between.
\<close>

theorem simulacao_mesmo_minuto:
  assumes "via_api (resposta_api a1) = Inl e1" and "via_scraping (resposta_pagina a1) = Inl f1"
    and "via_api (resposta_api a2) = Inl e2" and "via_scraping (resposta_pagina a2) = Inl f2"
    and "10 \<le> tempo a1 - ultima_atualizacao ant1"
    and "10 \<le> tempo a2 - ultima_atualizacao ant2"
    and "0 \<le> m"
    and "of_int (60 * m) \<le> tempo_semente a1" and "tempo_semente a1 < of_int (60 * (m + 1))"
    and "of_int (60 * m) \<le> tempo_semente a2" and "tempo_semente a2 < of_int (60 * (m + 1))"
  shows "\<exists>r1 r2 atual.
     atualizar_resultados_elephant random a1 ant1 = Inr r1
     \<and> atualizar_resultados_elephant random a2 ant2 = Inr r2
     \<and> resultado_atual r1 = Some atual \<and> resultado_atual r2 = Some atual
     \<and> ultimos_10 r1 = ultimos_10 r2 \<and> length (ultimos_10 r1) = 10
     \<and> frequencia r1 = frequencia r2 \<and> tendencia r1 = tendencia r2"
proof -
  have s: "semente (tempo_semente a1) = semente (tempo_semente a2)"
    using semente_minuto[OF assms(7,8,9)] semente_minuto[OF assms(7,10,11)] by simp
  have o1: "obter random a1 = simulacao random (tempo_semente a1)"
    using assms(1,2) by (simp add: obter_def)
  have o2: "obter random a2 = simulacao random (tempo_semente a2)"
    using assms(3,4) by (simp add: obter_def)
  have eq: "simulacao random (tempo_semente a1) = simulacao random (tempo_semente a2)"
    using s by (simp add: simulacao_def)
  have n1: "\<not> tempo a1 - ultima_atualizacao ant1 < 10" using assms(5) by simp
  have n2: "\<not> tempo a2 - ultima_atualizacao ant2 < 10" using assms(6) by simp
  have l: "length (snd (simulacao random (tempo_semente a2))) = 10"
    by (simp add: simulacao_def)
  show ?thesis
    unfolding atualizar_novo[OF n1] atualizar_novo[OF n2] o1 o2 eq using l by simp
qed


text \<open>
  The theorem for two refreshes in minute 16 (seconds 1003 and 1019), with different
  dictionaries before.
\<close>

theorem simulacao_mesmo_minuto_witness:
  "via_api (resposta_api (sem_rede 1000 1003)) = Inl RequestException
   \<and> via_scraping (resposta_pagina (sem_rede 1000 1003)) = Inl ValueError
   \<and> via_api (resposta_api (sem_rede 1015 1019)) = Inl RequestException
   \<and> via_scraping (resposta_pagina (sem_rede 1015 1019)) = Inl ValueError
   \<and> 10 \<le> tempo (sem_rede 1000 1003) - ultima_atualizacao (resultados_iniciais 0)
   \<and> 10 \<le> tempo (sem_rede 1015 1019) - ultima_atualizacao (resultados_iniciais 990)
   \<and> (0::int) \<le> 16
   \<and> of_int (60 * 16) \<le> tempo_semente (sem_rede 1000 1003)
   \<and> tempo_semente (sem_rede 1000 1003) < of_int (60 * (16 + 1))
   \<and> of_int (60 * 16) \<le> tempo_semente (sem_rede 1015 1019)
   \<and> tempo_semente (sem_rede 1015 1019) < of_int (60 * (16 + 1))
   \<and> (\<exists>r1 r2 atual.
     atualizar_resultados_elephant gerador_exemplo (sem_rede 1000 1003) (resultados_iniciais 0)
       = Inr r1
     \<and> atualizar_resultados_elephant gerador_exemplo (sem_rede 1015 1019)
         (resultados_iniciais 990) = Inr r2
     \<and> resultado_atual r1 = Some atual \<and> resultado_atual r2 = Some atual
     \<and> ultimos_10 r1 = ultimos_10 r2 \<and> length (ultimos_10 r1) = 10
     \<and> frequencia r1 = frequencia r2 \<and> tendencia r1 = tendencia r2)"
proof -
  have h: "10 \<le> tempo (sem_rede 1000 1003) - ultima_atualizacao (resultados_iniciais 0)"
    "10 \<le> tempo (sem_rede 1015 1019) - ultima_atualizacao (resultados_iniciais 990)"
    "(0::int) \<le> 16"
    "of_int (60 * 16) \<le> tempo_semente (sem_rede 1000 1003)"
    "tempo_semente (sem_rede 1000 1003) < of_int (60 * (16 + 1))"
    "of_int (60 * 16) \<le> tempo_semente (sem_rede 1015 1019)"
    "tempo_semente (sem_rede 1015 1019) < of_int (60 * (16 + 1))"
    by (simp_all add: sem_rede_def resultados_iniciais_def)
  from simulacao_mesmo_minuto[OF falhas_sem_rede falhas_sem_rede h, of gerador_exemplo]
    falhas_sem_rede h
  show ?thesis by blast
qed


text \<open>
  Nothing forces two different minutes to agree: with the example generator, second
  1003 (minute 16) gives orange and second 1021 (minute 17) gives red.
\<close>

lemma minutos_diferentes_podem_diferir:
  "\<exists>r1 r2.
     atualizar_resultados_elephant gerador_exemplo (sem_rede 1000 1003) (resultados_iniciais 0)
       = Inr r1
     \<and> atualizar_resultados_elephant gerador_exemplo (sem_rede 1015 1021)
         (resultados_iniciais 990) = Inr r2
     \<and> resultado_atual r1 = Some Laranja \<and> resultado_atual r2 = Some Vermelho"
proof -
  have n1: "\<not> tempo (sem_rede 1000 1003) - ultima_atualizacao (resultados_iniciais 0) < 10"
    and n2: "\<not> tempo (sem_rede 1015 1021) - ultima_atualizacao (resultados_iniciais 990) < 10"
    by (simp_all add: sem_rede_def resultados_iniciais_def)
  show ?thesis
    unfolding atualizar_novo[OF n1] atualizar_novo[OF n2] obter_sem_rede simulacao_exemplo
    by simp
qed


text \<open>
  Claim C7.  For every answer of the network (connection failure, any status, a body
  that is not JSON, JSON of any shape, a page with or without the results container)
  the refresh returns a dictionary and raises nothing.  The dictionary is the cached
  one, or a new one whose current outcome and window come from the API, from the page
  or, when both failed, from the simulation.
\<close>

theorem atualizar_nunca_levanta:
  "\<exists>r. atualizar_resultados_elephant random amb ant = Inr r
     \<and> (r = ant
        \<or> (\<exists>nr. (via_api (resposta_api amb) = Inr nr
                  \<or> via_scraping (resposta_pagina amb) = Inr nr
                  \<or> simulacao random (tempo_semente amb) = nr)
              \<and> resultado_atual r = Some (fst nr) \<and> ultimos_10 r = snd nr
              \<and> ultima_atualizacao r = tempo amb))"
proof (cases "tempo amb - ultima_atualizacao ant < 10")
  case True
  then show ?thesis by (simp add: atualizar_resultados_elephant_def)
next
  case False
  have "via_api (resposta_api amb) = Inr (obter random amb)
        \<or> via_scraping (resposta_pagina amb) = Inr (obter random amb)
        \<or> simulacao random (tempo_semente amb) = obter random amb"
    by (simp add: obter_def split: sum.splits)
  then show ?thesis
    unfolding atualizar_novo[OF False] by auto
qed


text \<open>The theorem for a refresh with no network.\<close>

theorem atualizar_nunca_levanta_witness:
  "\<exists>r. atualizar_resultados_elephant gerador_exemplo (sem_rede 1000 1003)
          (resultados_iniciais 0) = Inr r
     \<and> (r = resultados_iniciais 0
        \<or> (\<exists>nr. (via_api (resposta_api (sem_rede 1000 1003)) = Inr nr
                  \<or> via_scraping (resposta_pagina (sem_rede 1000 1003)) = Inr nr
                  \<or> simulacao gerador_exemplo (tempo_semente (sem_rede 1000 1003)) = nr)
              \<and> resultado_atual r = Some (fst nr) \<and> ultimos_10 r = snd nr
              \<and> ultima_atualizacao r = tempo (sem_rede 1000 1003)))"
  by (rule atualizar_nunca_levanta)




section \<open>Properties of the prediction picker\<close>

lemma atualizar_total: "\<exists>r. atualizar_resultados_elephant random amb ant = Inr r"
proof (cases "tempo amb - ultima_atualizacao ant < 10")
  case True
  then show ?thesis by (simp add: atualizar_resultados_elephant_def)
next
  case False
  from atualizar_novo[OF False] show ?thesis by blast
qed

lemma atualizar_cache:
  "tempo amb - ultima_atualizacao ant < 10 \<Longrightarrow>
     atualizar_resultados_elephant random amb ant = Inr ant"
  by (simp add: atualizar_resultados_elephant_def)








lemma por_horario_manha:
  "6 \<le> hora_atual i \<Longrightarrow> hora_atual i < 12 \<Longrightarrow>
     por_horario i ef ultimos tend False = Laranja_e_Azul"
  unfolding por_horario_def by simp

lemma janela_inicial:
  "ausentes (ultimos_10 (resultados_iniciais t0)) = []"
  "do_fim (ultimos_10 (resultados_iniciais t0)) 1 \<noteq> do_fim (ultimos_10 (resultados_iniciais t0)) 2"
  by (simp_all add: ausentes_def resultados_iniciais_def do_fim_def)

lemma decidir_inicial:
  "ultimo_pred i = Some u \<Longrightarrow>
     decidir i (ultimos_10 (resultados_iniciais t0)) tend defensivo =
       por_horario i (remove1 u estrategias) (ultimos_10 (resultados_iniciais t0)) tend defensivo"
proof -
  assume a: "ultimo_pred i = Some u"
  have u: "remove1 u estrategias = (if u \<in> set estrategias \<and> 1 < length estrategias
                 then remove1 u estrategias else estrategias)"
    by (cases u) (simp_all add: estrategias_def)
  have c: "(3 \<le> length (ultimos_10 (resultados_iniciais t0))
              \<and> do_fim (ultimos_10 (resultados_iniciais t0)) 1
                  = do_fim (ultimos_10 (resultados_iniciais t0)) 2
              \<and> do_fim (ultimos_10 (resultados_iniciais t0)) 2
                  = do_fim (ultimos_10 (resultados_iniciais t0)) 3) = False"
    "(5 \<le> length (ultimos_10 (resultados_iniciais t0))
        \<and> ausentes (ultimos_10 (resultados_iniciais t0)) \<noteq> []) = False"
    using janela_inicial[of t0] by auto
  show ?thesis
    unfolding decidir_def a option.case u[symmetric] Let_def c by simp
qed

lemma estrategia_com_cache:
  "tempo (rede i) - ultima_atualizacao ant < 10 \<Longrightarrow> gales < 1 \<Longrightarrow>
     estrategia_alta_assertividade random i gales defensivo ant =
       ((decidir i (ultimos_10 ant) (tendencia ant) defensivo, gales, defensivo), ant)"
  unfolding estrategia_alta_assertividade_def
  by (simp add: atualizar_cache max_gales_def)

lemma palpite_manha:
  "estrategia_alta_assertividade gerador_exemplo manha 0 False (resultados_iniciais 0) =
     ((Laranja_e_Azul, 0, False), resultados_iniciais 0)"
proof -
  have t: "tempo (rede manha) - ultima_atualizacao (resultados_iniciais 0) < 10"
    by (simp add: manha_def sem_rede_def resultados_iniciais_def)
  have u: "ultimo_pred manha = Some Laranja_e_Azul" by (simp add: manha_def)
  have h: "6 \<le> hora_atual manha" "hora_atual manha < 12" by (simp_all add: manha_def)
  show ?thesis
    unfolding estrategia_com_cache[OF t, of 0, simplified] decidir_inicial[OF u]
      por_horario_manha[OF h] ..
qed









section \<open>Properties of the posting loop\<close>

lemma placar_geral_campos [simp]:
  "acertos (placar_geral t st) = acertos st"
  "erros (placar_geral t st) = erros st"
  "total (placar_geral t st) = total st"
  "greens_seguidos (placar_geral t st) = greens_seguidos st"
  "consecutive_errors (placar_geral t st) = consecutive_errors st"
  "locais_antigos (placar_geral t st) = locais_antigos st"
  by (simp_all add: placar_geral_def)

lemma reinicio_sem_limiar:
  assumes "\<not> (150 \<le> acertos st \<and> 50 \<le> erros st \<and> 0 < total st)"
  shows "reinicio_do_placar st = Inr st"
proof -
  from assms have c: "(150 \<le> acertos st \<and> 50 \<le> erros st \<and> 0 < total st) = False"
    by blast
  show ?thesis unfolding reinicio_do_placar_def c if_False ..
qed

lemma reinicio_no_limiar:
  "150 \<le> acertos st \<Longrightarrow> 50 \<le> erros st \<Longrightarrow> 0 < total st \<Longrightarrow> locais_antigos st = None \<Longrightarrow>
     reinicio_do_placar st = Inl UnboundLocalError"
  by (simp add: reinicio_do_placar_def)

lemma reinicio_Inr:
  assumes "reinicio_do_placar st = Inr st2"
  shows "(st2 = st \<or> greens_seguidos st2 = 0)"
    and "locais_antigos st = None \<Longrightarrow> st2 = st"
  using assms by (auto simp: reinicio_do_placar_def split: if_splits option.splits)

lemma conferir_Inr:
  assumes "conferir p rr u st = Inr (a, st5)"
  shows "greens_seguidos st5 = greens_seguidos st"
    and "locais_antigos st5 = locais_antigos st"
  using assms by (auto simp: conferir_def split: if_splits option.splits)

lemma apos_acerto_campos:
  assumes "apos_acerto random ib st = (b, st6)"
  shows "greens_seguidos st6 = greens_seguidos st + 1"
    and "locais_antigos st6 = locais_antigos st"
  using assms by (auto simp: apos_acerto_def Let_def split: prod.splits if_splits)

lemma apos_erro_campos:
  "greens_seguidos (apos_erro st) = 0"
  "locais_antigos (apos_erro st) = locais_antigos st"
  "erros (apos_erro st) = erros st + 1"
  "acertos (apos_erro st) = acertos st"
  "total (apos_erro st) = total st"
  by (simp_all add: apos_erro_def Let_def)

lemma enviar_palpite_interrompida:
  "reinicio_do_placar (placar_geral (agora v) st) = Inl e \<Longrightarrow>
     enviar_palpite random v st = (placar_geral (agora v) st, Interrompida e)"
  by (simp add: enviar_palpite_def)

lemma enviar_palpite_passos:
  assumes "reinicio_do_placar (placar_geral (agora v) st) = Inr st2"
    and "gerar_palpite random (instante_palpite v) (contagem_gales st2) (modo_defensivo st2)
           (resultados_anteriores st2) = ((p, g, d), res)"
    and "atualizar_resultados_elephant random (rede_resultado v) res = Inr dados"
    and "st4 = st2\<lparr>contagem_gales := g, modo_defensivo := d, resultados_anteriores := dados,
                     total := total st2 + 1\<rparr>"
  shows "enviar_palpite random v st =
           (case conferir p (resultado_atual dados) (acaso v) st4 of
              Inl e \<Rightarrow> (st4, Interrompida e)
            | Inr (acertou, st5) \<Rightarrow>
                if acertou then
                  (case apos_acerto random (instante_bonus v) st5 of
                     (b, st6) \<Rightarrow> (st6, Publicada (mensagem_do_palpite True p (Some b) st6)))
                else (apos_erro st5, Publicada (mensagem_do_palpite False p None (apos_erro st5))))"
proof -
  have r: "st2\<lparr>contagem_gales := g, modo_defensivo := d, resultados_anteriores := res,
              total := total st2 + 1, resultados_anteriores := dados\<rparr> = st4"
    by (simp add: assms(4))
  have a: "atualizar_resultados_elephant random (rede_resultado v)
             (resultados_anteriores (st2\<lparr>contagem_gales := g, modo_defensivo := d,
                resultados_anteriores := res, total := total st2 + 1\<rparr>)) = Inr dados"
    by (simp add: assms(3))
  show ?thesis
    unfolding enviar_palpite_def Let_def assms(1) sum.case assms(2) prod.case a r ..
qed

lemma enviar_palpite_casos:
  obtains (reinicio) e where
      "reinicio_do_placar (placar_geral (agora v) st) = Inl e"
      "enviar_palpite random v st = (placar_geral (agora v) st, Interrompida e)"
  | (conferir) st2 st4 e where
      "reinicio_do_placar (placar_geral (agora v) st) = Inr st2"
      "greens_seguidos st4 = greens_seguidos st2" "locais_antigos st4 = locais_antigos st2"
      "enviar_palpite random v st = (st4, Interrompida e)"
  | (acerto) st2 st4 p rr st5 b st6 where
      "reinicio_do_placar (placar_geral (agora v) st) = Inr st2"
      "greens_seguidos st4 = greens_seguidos st2" "locais_antigos st4 = locais_antigos st2"
      "conferir p rr (acaso v) st4 = Inr (True, st5)"
      "apos_acerto random (instante_bonus v) st5 = (b, st6)"
      "enviar_palpite random v st = (st6, Publicada (mensagem_do_palpite True p (Some b) st6))"
  | (erro) st2 st4 p rr st5 where
      "reinicio_do_placar (placar_geral (agora v) st) = Inr st2"
      "greens_seguidos st4 = greens_seguidos st2" "locais_antigos st4 = locais_antigos st2"
      "conferir p rr (acaso v) st4 = Inr (False, st5)"
      "enviar_palpite random v st =
         (apos_erro st5, Publicada (mensagem_do_palpite False p None (apos_erro st5)))"
proof (cases "reinicio_do_placar (placar_geral (agora v) st)")
  case (Inl e)
  from reinicio[OF Inl enviar_palpite_interrompida[OF Inl]] show ?thesis .
next
  case (Inr st2)
  obtain p g d res where gp: "gerar_palpite random (instante_palpite v) (contagem_gales st2)
      (modo_defensivo st2) (resultados_anteriores st2) = ((p, g, d), res)"
    by (metis prod.exhaust)
  obtain dados where at: "atualizar_resultados_elephant random (rede_resultado v) res = Inr dados"
    using atualizar_total by blast
  define st4 where "st4 = st2\<lparr>contagem_gales := g, modo_defensivo := d,
      resultados_anteriores := dados, total := total st2 + 1\<rparr>"
  have f: "greens_seguidos st4 = greens_seguidos st2" "locais_antigos st4 = locais_antigos st2"
    by (simp_all add: st4_def)
  note eq = enviar_palpite_passos[OF Inr gp at st4_def]
  show ?thesis
  proof (cases "conferir p (resultado_atual dados) (acaso v) st4")
    case (Inl e)
    with eq have "enviar_palpite random v st = (st4, Interrompida e)" by simp
    then show ?thesis by (rule conferir[OF Inr f])
  next
    case c: (Inr r)
    obtain a st5 where r: "r = (a, st5)" by (cases r) auto
    show ?thesis
    proof (cases a)
      case True
      obtain b st6 where ap: "apos_acerto random (instante_bonus v) st5 = (b, st6)"
        by (metis prod.exhaust)
      from c r True have c': "conferir p (resultado_atual dados) (acaso v) st4 = Inr (True, st5)"
        by simp
      from eq c' ap have "enviar_palpite random v st =
          (st6, Publicada (mensagem_do_palpite True p (Some b) st6))" by simp
      then show ?thesis by (rule acerto[OF Inr f c' ap])
    next
      case False
      from c r False have c': "conferir p (resultado_atual dados) (acaso v) st4 = Inr (False, st5)"
        by simp
      from eq c' have "enviar_palpite random v st =
         (apos_erro st5, Publicada (mensagem_do_palpite False p None (apos_erro st5)))" by simp
      then show ?thesis by (rule erro[OF Inr f c'])
    qed
  qed
qed

lemma greens_passo:
  assumes "0 \<le> greens_seguidos st"
  shows "0 \<le> greens_seguidos (fst (enviar_palpite random v st))"
proof (cases rule: enviar_palpite_casos[of v st random])
  case (reinicio e)
  with assms show ?thesis by simp
next
  case (conferir st2 st4 e)
  with assms reinicio_Inr(1)[OF conferir(1)] show ?thesis by auto
next
  case (acerto st2 st4 p rr st5 b st6)
  with assms reinicio_Inr(1)[OF acerto(1)] conferir_Inr(1)[OF acerto(4)]
    apos_acerto_campos(1)[OF acerto(5)] show ?thesis by auto
next
  case (erro st2 st4 p rr st5)
  then show ?thesis by (simp add: apos_erro_campos)
qed

lemma alcancavel_greens: "alcancavel random st \<Longrightarrow> 0 \<le> greens_seguidos st"
  by (induction rule: alcancavel.induct) (simp_all add: estado_inicial_def greens_passo)

lemma locais_passo:
  assumes "locais_antigos st = None"
  shows "locais_antigos (fst (enviar_palpite random v st)) = None"
proof (cases rule: enviar_palpite_casos[of v st random])
  case (reinicio e)
  with assms show ?thesis by simp
next
  case (conferir st2 st4 e)
  with assms reinicio_Inr(2)[OF conferir(1)] show ?thesis by auto
next
  case (acerto st2 st4 p rr st5 b st6)
  with assms reinicio_Inr(2)[OF acerto(1)] conferir_Inr(2)[OF acerto(4)]
    apos_acerto_campos(2)[OF acerto(5)] show ?thesis by auto
next
  case (erro st2 st4 p rr st5)
  with assms reinicio_Inr(2)[OF erro(1)] conferir_Inr(2)[OF erro(4)]
  show ?thesis by (simp add: apos_erro_campos)
qed

lemma alcancavel_locais: "alcancavel random st \<Longrightarrow> locais_antigos st = None"
  by (induction rule: alcancavel.induct) (simp_all add: estado_inicial_def locais_passo)

lemma taxa_publicada:
  assumes "enviar_palpite random v st = (st', Publicada m)"
  shows "taxa m = taxa_exibida (greens_seguidos st')"
proof (cases rule: enviar_palpite_casos[of v st random])
  case (reinicio e)
  with assms show ?thesis by simp
next
  case (conferir st2 st4 e)
  with assms show ?thesis by simp
next
  case (acerto st2 st4 p rr st5 b st6)
  with assms show ?thesis by (auto simp: mensagem_do_palpite_def)
next
  case (erro st2 st4 p rr st5)
  with assms show ?thesis by (auto simp: mensagem_do_palpite_def)
qed

lemma taxa_exibida_faixa:
  "0 \<le> g \<Longrightarrow> 50 \<le> taxa_exibida g \<and> taxa_exibida g \<le> 99"
  by (simp add: taxa_exibida_def min_def)

lemma placar_geral_globais [simp]:
  "contagem_gales (placar_geral t st) = contagem_gales st"
  "modo_defensivo (placar_geral t st) = modo_defensivo st"
  "resultados_anteriores (placar_geral t st) = resultados_anteriores st"
  by (simp_all add: placar_geral_def)

lemma erro_pontuado:
  assumes "\<not> (150 \<le> acertos st \<and> 50 \<le> erros st \<and> 0 < total st)"
    and "gerar_palpite random (instante_palpite v) (contagem_gales st) (modo_defensivo st)
           (resultados_anteriores st) = ((p, g, d), res)"
    and "atualizar_resultados_elephant random (rede_resultado v) res = Inr dados"
    and "resultado_atual dados = Some r"
    and "\<not> resultado_mapa r p"
    and "st4 = (placar_geral (agora v) st)\<lparr>contagem_gales := g, modo_defensivo := d,
            resultados_anteriores := dados, total := total st + 1\<rparr>"
  shows "enviar_palpite random v st =
           (case consecutive_errors st of
              None \<Rightarrow> (st4, Interrompida NameError)
            | Some n \<Rightarrow>
                (let st5 = (if 5 \<le> n + 1
                            then st4\<lparr>acertos := 0, erros := 5, total := 5,
                                     consecutive_errors := Some 0\<rparr>
                            else st4\<lparr>consecutive_errors := Some (n + 1)\<rparr>)
                 in (apos_erro st5, Publicada (mensagem_do_palpite False p None (apos_erro st5)))))"
proof -
  have r: "reinicio_do_placar (placar_geral (agora v) st) = Inr (placar_geral (agora v) st)"
    using assms(1) by (intro reinicio_sem_limiar) simp
  have g: "gerar_palpite random (instante_palpite v) (contagem_gales (placar_geral (agora v) st))
      (modo_defensivo (placar_geral (agora v) st))
      (resultados_anteriores (placar_geral (agora v) st)) = ((p, g, d), res)"
    using assms(2) by simp
  have s: "st4 = (placar_geral (agora v) st)\<lparr>contagem_gales := g, modo_defensivo := d,
            resultados_anteriores := dados, total := total (placar_geral (agora v) st) + 1\<rparr>"
    using assms(6) by simp
  have c: "consecutive_errors st4 = consecutive_errors st" using assms(6) by simp
  show ?thesis
    unfolding enviar_palpite_passos[OF r g assms(3) s] assms(4)
    using assms(5) c by (simp add: conferir_def Let_def split: option.splits)
qed

lemma cinco_erros_geral:
  assumes "consecutive_errors st = Some 4"
    and "\<not> (150 \<le> acertos st \<and> 50 \<le> erros st \<and> 0 < total st)"
    and "gerar_palpite random (instante_palpite v) (contagem_gales st) (modo_defensivo st)
           (resultados_anteriores st) = ((p, g, d), res)"
    and "atualizar_resultados_elephant random (rede_resultado v) res = Inr dados"
    and "resultado_atual dados = Some r"
    and "\<not> resultado_mapa r p"
  shows "\<exists>st' m. enviar_palpite random v st = (st', Publicada m)
      \<and> acertos_exibidos m = 0 \<and> erros_exibidos m = 6
      \<and> acertos st' = 0 \<and> erros st' = 6 \<and> total st' = 5 \<and> consecutive_errors st' = Some 0"
proof -
  define st4 where "st4 = (placar_geral (agora v) st)\<lparr>contagem_gales := g, modo_defensivo := d,
            resultados_anteriores := dados, total := total st + 1\<rparr>"
  define st5 where "st5 = st4\<lparr>acertos := 0, erros := 5, total := 5, consecutive_errors := Some 0\<rparr>"
  have "enviar_palpite random v st =
          (apos_erro st5, Publicada (mensagem_do_palpite False p None (apos_erro st5)))"
    unfolding erro_pontuado[OF assms(2,3,4,5,6) st4_def] assms(1) st5_def
    by (simp add: Let_def)
  moreover have "acertos (apos_erro st5) = 0" "erros (apos_erro st5) = 6" "total (apos_erro st5) = 5"
    by (simp_all add: apos_erro_campos st5_def)
  moreover have "consecutive_errors (apos_erro st5) = Some 0"
    by (simp add: apos_erro_def Let_def st5_def)
  ultimately show ?thesis by (simp add: mensagem_do_palpite_def)
qed

text \<open>
  Claim C1, evaluated.  The state has four scored misses in a row; the pass picks
  \<^verbatim>\<open>Laranja e Azul\<close>, the outcome is red, and the scoring step sets hits 0, misses 5,
  total 5 and the run of misses back to 0 (lemma \<open>cinco_erros_geral\<close> has this for every
  such pass).  The accounting of the miss that follows in the same pass (line 1100)
  then adds one to the misses: the message shows 0 hits and 6 misses, with total 5.
\<close>

theorem cinco_erros_mostra_seis:
  "snd (enviar_palpite gerador_exemplo (volta_manha 0) quatro_erros) =
     Publicada \<lparr>verde = False, proxima = Laranja_e_Azul, bonus = None, modo_indicador = False,
       acertos_exibidos = 0, erros_exibidos = 6, taxa = 50\<rparr>
   \<and> acertos (fst (enviar_palpite gerador_exemplo (volta_manha 0) quatro_erros)) = 0
   \<and> erros (fst (enviar_palpite gerador_exemplo (volta_manha 0) quatro_erros)) = 6
   \<and> total (fst (enviar_palpite gerador_exemplo (volta_manha 0) quatro_erros)) = 5
   \<and> consecutive_errors (fst (enviar_palpite gerador_exemplo (volta_manha 0) quatro_erros))
       = Some 0"
  by code_simp


lemma limiar_nunca_reinicia:
  assumes "alcancavel random st"
    and "150 \<le> acertos st" and "50 \<le> erros st" and "0 < total st"
  shows "enviar_palpite random v st = (placar_geral (agora v) st, Interrompida UnboundLocalError)"
proof -
  have "reinicio_do_placar (placar_geral (agora v) st) = Inl UnboundLocalError"
    using assms alcancavel_locais[OF assms(1)] by (intro reinicio_no_limiar) simp_all
  then show ?thesis by (rule enviar_palpite_interrompida)
qed

text \<open>
  Claim C2, evaluated.  With 150 hits and 50 misses the pass ends with
  \<^verbatim>\<open>UnboundLocalError\<close> while it builds the text that announces the reset: nothing is
  reset and no pick is posted.  Lemma \<open>limiar_nunca_reinicia\<close> has this for every
  state the loop can reach, so every later pass ends the same way.
\<close>

theorem limiar_interrompe_o_laco:
  "snd (enviar_palpite gerador_exemplo (volta_manha 0) no_limiar) = Interrompida UnboundLocalError
   \<and> acertos (fst (enviar_palpite gerador_exemplo (volta_manha 0) no_limiar)) = 150
   \<and> erros (fst (enviar_palpite gerador_exemplo (volta_manha 0) no_limiar)) = 50
   \<and> total (fst (enviar_palpite gerador_exemplo (volta_manha 0) no_limiar)) = 200
   \<and> locais_antigos (fst (enviar_palpite gerador_exemplo (volta_manha 0) no_limiar)) = None"
  by code_simp


text \<open>
  Claim C9.  \<^verbatim>\<open>consecutive_errors\<close> has no value, the counters add up, the pass
  reaches the scoring step (the reset of 150 and 50 is not due), and the pick misses
  the outcome of the refreshed dictionary.  Then the pass ends in the handler with
  \<^verbatim>\<open>NameError\<close> before any message; \<^verbatim>\<open>total\<close> has been incremented, hits and
  misses have not, so that \<^verbatim>\<open>total = acertos + erros + 1\<close>, and
  \<^verbatim>\<open>consecutive_errors\<close> still has no value.
\<close>

theorem primeiro_erro_levanta_NameError:
  assumes "consecutive_errors st = None"
    and "total st = acertos st + erros st"
    and "\<not> (150 \<le> acertos st \<and> 50 \<le> erros st \<and> 0 < total st)"
    and "gerar_palpite random (instante_palpite v) (contagem_gales st) (modo_defensivo st)
           (resultados_anteriores st) = ((p, g, d), res)"
    and "atualizar_resultados_elephant random (rede_resultado v) res = Inr dados"
    and "resultado_atual dados = Some r"
    and "\<not> resultado_mapa r p"
  shows "\<exists>st'. enviar_palpite random v st = (st', Interrompida NameError)
      \<and> total st' = total st + 1 \<and> acertos st' = acertos st \<and> erros st' = erros st
      \<and> total st' = acertos st' + erros st' + 1 \<and> consecutive_errors st' = None"
proof -
  define st4 where "st4 = (placar_geral (agora v) st)\<lparr>contagem_gales := g, modo_defensivo := d,
            resultados_anteriores := dados, total := total st + 1\<rparr>"
  have "enviar_palpite random v st = (st4, Interrompida NameError)"
    unfolding erro_pontuado[OF assms(3,4,5,6,7) st4_def] assms(1) by simp
  moreover have "total st4 = total st + 1" "acertos st4 = acertos st" "erros st4 = erros st"
    "consecutive_errors st4 = None"
    using assms(1) by (simp_all add: st4_def)
  ultimately show ?thesis using assms(2) by simp
qed


lemma passo_simulado:
  "gerar_palpite gerador_exemplo (instante_palpite volta_simulada)
     (contagem_gales (estado_inicial 0 0)) (modo_defensivo (estado_inicial 0 0))
     (resultados_anteriores (estado_inicial 0 0)) =
       ((Laranja_e_Azul, 0, False), resultados_iniciais 0)"
  by (simp add: gerar_palpite_def volta_simulada_def estado_inicial_def palpite_manha)

lemma dados_simulados:
  "\<exists>dados. atualizar_resultados_elephant gerador_exemplo (rede_resultado volta_simulada)
       (resultados_iniciais 0) = Inr dados \<and> resultado_atual dados = Some Vermelho"
proof -
  have n: "\<not> tempo (sem_rede 1000 1021) - ultima_atualizacao (resultados_iniciais 0) < 10"
    by (simp add: sem_rede_def resultados_iniciais_def)
  show ?thesis
    unfolding volta_simulada_def volta.simps atualizar_novo[OF n] obter_sem_rede
      simulacao_exemplo
    by simp
qed

text \<open>
  The theorem for the first pass of the process, in which the refresh simulates the
  outcome red against the pick \<^verbatim>\<open>Laranja e Azul\<close>.
\<close>

theorem primeiro_erro_levanta_NameError_witness:
  "consecutive_errors (estado_inicial 0 0) = None
   \<and> total (estado_inicial 0 0) = acertos (estado_inicial 0 0) + erros (estado_inicial 0 0)
   \<and> gerar_palpite gerador_exemplo (instante_palpite volta_simulada)
       (contagem_gales (estado_inicial 0 0)) (modo_defensivo (estado_inicial 0 0))
       (resultados_anteriores (estado_inicial 0 0)) =
         ((Laranja_e_Azul, 0, False), resultados_iniciais 0)
   \<and> (\<exists>dados. atualizar_resultados_elephant gerador_exemplo (rede_resultado volta_simulada)
         (resultados_iniciais 0) = Inr dados \<and> resultado_atual dados = Some Vermelho)
   \<and> resultado_mapa Vermelho Laranja_e_Azul = False
   \<and> (\<exists>st'. enviar_palpite gerador_exemplo volta_simulada (estado_inicial 0 0)
              = (st', Interrompida NameError)
         \<and> total st' = 1 \<and> acertos st' = 0 \<and> erros st' = 0
         \<and> total st' = acertos st' + erros st' + 1 \<and> consecutive_errors st' = None)"
proof -
  obtain dados where d: "atualizar_resultados_elephant gerador_exemplo
       (rede_resultado volta_simulada) (resultados_iniciais 0) = Inr dados"
    "resultado_atual dados = Some Vermelho"
    using dados_simulados by blast
  have i: "consecutive_errors (estado_inicial 0 0) = None"
    "total (estado_inicial 0 0) = acertos (estado_inicial 0 0) + erros (estado_inicial 0 0)"
    "\<not> (150 \<le> acertos (estado_inicial 0 0) \<and> 50 \<le> erros (estado_inicial 0 0)
        \<and> 0 < total (estado_inicial 0 0))"
    by (simp_all add: estado_inicial_def)
  have m: "\<not> resultado_mapa Vermelho Laranja_e_Azul" by (simp add: resultado_mapa_def)
  from primeiro_erro_levanta_NameError[OF i passo_simulado d m] i passo_simulado d m
  show ?thesis by (auto simp: estado_inicial_def)
qed


text \<open>
  Claim C10.  In every state the loop can reach, the rate a pass puts in its message
  is \<^verbatim>\<open>50 + min(2 * greens_seguidos, 49)\<close> for the streak of hits as the pass leaves
  it; it lies between 50 and 99; any other message with the same streak shows the same
  rate, whatever its hits and misses; and \<^verbatim>\<open>status_cmd\<close> shows the same rate.
\<close>

theorem taxa_do_palpite:
  assumes "alcancavel random st"
    and "enviar_palpite random v st = (st', Publicada m)"
    and "enviar_palpite random v2 st2 = (st2', Publicada m2)"
    and "greens_seguidos st2' = greens_seguidos st'"
  shows "taxa m = 50 + min (of_int (2 * greens_seguidos st')) 49
      \<and> 50 \<le> taxa m \<and> taxa m \<le> 99
      \<and> taxa m2 = taxa m
      \<and> (\<forall>t. status_cmd st' = Some t \<longrightarrow> t = taxa m)"
proof -
  have "st' = fst (enviar_palpite random v st)" using assms(2) by simp
  with greens_passo[OF alcancavel_greens[OF assms(1)], of random v]
  have g: "0 \<le> greens_seguidos st'" by simp
  have t: "taxa m = taxa_exibida (greens_seguidos st')" by (rule taxa_publicada[OF assms(2)])
  have t2: "taxa m2 = taxa_exibida (greens_seguidos st2')" by (rule taxa_publicada[OF assms(3)])
  from taxa_exibida_faixa[OF g] t t2 assms(4) show ?thesis
    by (auto simp: taxa_exibida_def status_cmd_def mult.commute split: if_splits)
qed


lemma passo_com_sorte:
  "snd (enviar_palpite gerador_exemplo (volta_manha (1 / 2)) (estado_inicial 0 0)) =
     Publicada \<lparr>verde = True, proxima = Laranja_e_Azul, bonus = Some Laranja_e_Azul,
       modo_indicador = False, acertos_exibidos = 1, erros_exibidos = 0, taxa = 52\<rparr>"
  "greens_seguidos (fst (enviar_palpite gerador_exemplo (volta_manha (1 / 2)) (estado_inicial 0 0)))
     = 1"
  "total (fst (enviar_palpite gerador_exemplo (volta_manha (1 / 2)) (estado_inicial 0 0))) = 1"
  "snd (enviar_palpite gerador_exemplo (volta_manha (1 / 2)) sessenta_palpites) =
     Publicada \<lparr>verde = True, proxima = Laranja_e_Azul, bonus = Some Laranja_e_Azul,
       modo_indicador = False, acertos_exibidos = 41, erros_exibidos = 20, taxa = 52\<rparr>"
  "greens_seguidos (fst (enviar_palpite gerador_exemplo (volta_manha (1 / 2)) sessenta_palpites))
     = 1"
  by code_simp+

text \<open>
  The theorem for a hit in the first pass (1 hit, 0 misses) and a hit after sixty
  picks (41 hits, 20 misses): both show the rate 52.
\<close>

theorem taxa_do_palpite_witness:
  "alcancavel gerador_exemplo (estado_inicial 0 0)
   \<and> snd (enviar_palpite gerador_exemplo (volta_manha (1 / 2)) (estado_inicial 0 0)) =
       Publicada \<lparr>verde = True, proxima = Laranja_e_Azul, bonus = Some Laranja_e_Azul,
         modo_indicador = False, acertos_exibidos = 1, erros_exibidos = 0, taxa = 52\<rparr>
   \<and> snd (enviar_palpite gerador_exemplo (volta_manha (1 / 2)) sessenta_palpites) =
       Publicada \<lparr>verde = True, proxima = Laranja_e_Azul, bonus = Some Laranja_e_Azul,
         modo_indicador = False, acertos_exibidos = 41, erros_exibidos = 20, taxa = 52\<rparr>
   \<and> greens_seguidos (fst (enviar_palpite gerador_exemplo (volta_manha (1 / 2)) sessenta_palpites))
       = greens_seguidos (fst (enviar_palpite gerador_exemplo (volta_manha (1 / 2))
           (estado_inicial 0 0)))
   \<and> (52::rat) = 50 + min (of_int (2 * 1)) 49 \<and> (50::rat) \<le> 52 \<and> (52::rat) \<le> 99
   \<and> status_cmd (fst (enviar_palpite gerador_exemplo (volta_manha (1 / 2)) (estado_inicial 0 0)))
       = Some 52"
proof -
  let ?m1 = "\<lparr>verde = True, proxima = Laranja_e_Azul, bonus = Some Laranja_e_Azul,
       modo_indicador = False, acertos_exibidos = 1, erros_exibidos = 0, taxa = 52\<rparr>"
  let ?m2 = "\<lparr>verde = True, proxima = Laranja_e_Azul, bonus = Some Laranja_e_Azul,
       modo_indicador = False, acertos_exibidos = 41, erros_exibidos = 20, taxa = 52\<rparr>"
  let ?r1 = "enviar_palpite gerador_exemplo (volta_manha (1 / 2)) (estado_inicial 0 0)"
  let ?r2 = "enviar_palpite gerador_exemplo (volta_manha (1 / 2)) sessenta_palpites"
  have a: "alcancavel gerador_exemplo (estado_inicial 0 0)" by (rule alcancavel.inicio)
  have e1: "?r1 = (fst ?r1, Publicada ?m1)"
    using passo_com_sorte(1) by (metis prod.collapse)
  have e2: "?r2 = (fst ?r2, Publicada ?m2)"
    using passo_com_sorte(4) by (metis prod.collapse)
  have g: "greens_seguidos (fst ?r2) = greens_seguidos (fst ?r1)"
    by (simp add: passo_com_sorte)
  have s: "status_cmd (fst ?r1) = Some 52"
    by (simp add: status_cmd_def passo_com_sorte taxa_exibida_def)
  from taxa_do_palpite[OF a e1 e2 g] a passo_com_sorte(1,4) g s
  show ?thesis by simp
qed


end
